theory Spec2Isabelle
  imports Main "HOL-Library.Word"
begin

section \<open>Server monitor and port tester: the embedding\<close>

text \<open>
  The program is \<^verbatim>\<open>serverconnection_test/main.cpp\<close>. Its POSIX branch is modelled
  (the \<^verbatim>\<open>#else\<close> parts); the Winsock branch differs in the names of the calls only.
  A C++ \<^verbatim>\<open>int\<close> is a 32-bit word read through \<open>sint\<close>, so that \<^verbatim>\<open>failureCount++\<close> and
  \<^verbatim>\<open>timeoutMs * 1000\<close> wrap around as the machine does.
\<close>

type_synonym c_int = "32 word"

subsection \<open>The operating system and what the program does to it\<close>

text \<open>
  Every system call, every access to the shared flag and every line printed is an event;
  a function of the program returns its value together with the events it caused, in
  order.
\<close>

datatype event =
    Socket c_int                      \<comment> \<open>\<^verbatim>\<open>socket(AF_INET, SOCK_STREAM, 0)\<close> and the value it returned\<close>
  | Fcntl c_int                       \<comment> \<open>\<^verbatim>\<open>fcntl(sockfd, F_SETFL, O_NONBLOCK)\<close>\<close>
  | Connect c_int string "16 word"    \<comment> \<open>\<^verbatim>\<open>connect\<close>: descriptor, address text, port\<close>
  | Select c_int c_int                \<comment> \<open>\<^verbatim>\<open>select\<close> for writing: descriptor, \<^verbatim>\<open>tv_usec\<close>\<close>
  | GetSockOpt c_int                  \<comment> \<open>\<^verbatim>\<open>getsockopt(sockfd, SOL_SOCKET, SO_ERROR, ...)\<close>\<close>
  | Close c_int                       \<comment> \<open>\<^verbatim>\<open>close(sockfd)\<close>\<close>
  | Store bool                        \<comment> \<open>\<^verbatim>\<open>serverConnection.store(b)\<close>\<close>
  | Load                              \<comment> \<open>a read of \<^verbatim>\<open>serverConnection\<close>\<close>
  | Cout string                       \<comment> \<open>text written to \<^verbatim>\<open>std::cout\<close>\<close>
  | Cerr string                       \<comment> \<open>text written to \<^verbatim>\<open>std::cerr\<close>\<close>
  | Sleep c_int                       \<comment> \<open>\<^verbatim>\<open>sleep_for(milliseconds(n))\<close>\<close>

text \<open>
  What \<^verbatim>\<open>connect\<close> answers on a non-blocking socket: 0 when the connection is made at
  once, -1 with \<^verbatim>\<open>EINPROGRESS\<close> when it has been started, -1 with another \<^verbatim>\<open>errno\<close> when
  it could not be started.
\<close>

datatype connect_answer =
    ConnectDone
  | ConnectInProgress
  | ConnectFailed c_int

text \<open>
  What the operating system answers during one connection attempt: the value of
  \<^verbatim>\<open>socket\<close>, the answer of \<^verbatim>\<open>connect\<close> for the address and port, the value of
  \<^verbatim>\<open>select\<close> for the address, port and timeout it is asked about, and the value that
  \<^verbatim>\<open>getsockopt\<close> leaves in \<^verbatim>\<open>so_error\<close>. The address is kept as the text handed to
  \<^verbatim>\<open>inet_pton\<close>.
\<close>

record os =
  socket_result :: c_int
  connect_result :: "string \<Rightarrow> 16 word \<Rightarrow> connect_answer"
  select_result :: "string \<Rightarrow> 16 word \<Rightarrow> c_int \<Rightarrow> c_int"
  so_error_result :: "string \<Rightarrow> 16 word \<Rightarrow> c_int"

text \<open>
  \<^verbatim>\<open>htons\<close> takes a \<^verbatim>\<open>uint16_t\<close>: the \<^verbatim>\<open>int\<close> argument is cut to its low 16 bits. The
  byte order of the result is a matter of representation; the value is the port.
\<close>

definition htons :: "c_int \<Rightarrow> 16 word" where
  "htons port = ucast port"

text \<open>The descriptors a sequence of events leaves open, given those open before it.\<close>

fun held :: "event list \<Rightarrow> c_int list \<Rightarrow> c_int list" where
  "held [] fds = fds"
| "held (Socket fd # es) fds = held es (if sint fd < 0 then fds else fd # fds)"
| "held (Close fd # es) fds = held es (removeAll fd fds)"
| "held (e # es) fds = held es fds"

fun is_store :: "event \<Rightarrow> bool" where
  "is_store (Store b) = True"
| "is_store e = False"

definition stores :: "event list \<Rightarrow> nat" where
  "stores es = length (filter is_store es)"

subsection \<open>Connector: \<^verbatim>\<open>isHostReachable\<close>\<close>

text \<open>
  Line 55 calls \<^verbatim>\<open>connect\<close> and drops the value it returns, so \<open>connect_result\<close> is
  read nowhere below; the same holds of line 142 in \<^verbatim>\<open>testPortFast\<close>.
\<close>

definition isHostReachable_port :: c_int where
  "isHostReachable_port = 80"

definition isHostReachable_timeoutMs :: c_int where
  "isHostReachable_timeoutMs = 500"

definition isHostReachable :: "os \<Rightarrow> string \<Rightarrow> c_int \<Rightarrow> c_int \<Rightarrow> bool \<times> event list" where
  "isHostReachable w ip port timeoutMs =
    (let sockfd = socket_result w in
     if sint sockfd < 0 then (False, [Socket sockfd])
     else
       let sin_port = htons port;
           tv_usec = timeoutMs * 1000;
           res = select_result w ip sin_port tv_usec;
           attempt = [Socket sockfd, Fcntl sockfd, Connect sockfd ip sin_port,
                      Select sockfd tv_usec]
       in if 0 < sint res
          then (let so_error = so_error_result w ip sin_port
                in (so_error = 0, attempt @ [GetSockOpt sockfd, Close sockfd]))
          else (False, attempt @ [Close sockfd]))"

subsection \<open>Prober: \<^verbatim>\<open>testPortFast\<close>\<close>

definition testPortFast_timeoutMs :: c_int where
  "testPortFast_timeoutMs = 200"

definition testPortFast :: "os \<Rightarrow> string \<Rightarrow> c_int \<Rightarrow> c_int \<Rightarrow> bool \<times> event list" where
  "testPortFast w ip port timeoutMs =
    (let sockfd = socket_result w in
     if sint sockfd < 0 then (False, [Socket sockfd])
     else
       let sin_port = htons port;
           tv_usec = timeoutMs * 1000;
           res = select_result w ip sin_port tv_usec;
           attempt = [Socket sockfd, Fcntl sockfd, Connect sockfd ip sin_port,
                      Select sockfd tv_usec]
       in if 0 < sint res
          then (let so_error = so_error_result w ip sin_port
                in (so_error = 0, attempt @ [GetSockOpt sockfd, Close sockfd]))
          else (False, attempt @ [Close sockfd]))"

subsection \<open>Printing and parsing integers\<close>

text \<open>\<^verbatim>\<open>operator<<\<close> on an \<^verbatim>\<open>int\<close>: decimal, with a minus sign when negative.\<close>

fun show_nat :: "nat \<Rightarrow> string" where
  "show_nat n =
     (if n < 10 then [''0123456789'' ! n]
      else show_nat (n div 10) @ [''0123456789'' ! (n mod 10)])"

declare show_nat.simps [simp del]

definition show_int :: "c_int \<Rightarrow> string" where
  "show_int i = (if sint i < 0 then CHR ''-'' # show_nat (nat (- sint i)) else show_nat (nat (sint i)))"

text \<open>
  \<^verbatim>\<open>std::stoi(s)\<close> runs \<^verbatim>\<open>strtol\<close> in base 10: white space is skipped, one sign is
  taken, then the longest run of digits; what follows the digits is ignored. No digit
  at all throws \<^verbatim>\<open>std::invalid_argument\<close>, a value that does not fit an \<^verbatim>\<open>int\<close> throws
  \<^verbatim>\<open>std::out_of_range\<close>.
\<close>

datatype stoi_error = invalid_argument | out_of_range

definition isspace :: "char \<Rightarrow> bool" where
  "isspace c = (c \<in> set [CHR '' '', CHR 0x09, CHR 0x0A, CHR 0x0B, CHR 0x0C, CHR 0x0D])"

definition isdigit :: "char \<Rightarrow> bool" where
  "isdigit c = (c \<in> set ''0123456789'')"

definition digit_value :: "char \<Rightarrow> int" where
  "digit_value c = int (of_char c) - 48"

definition decimal :: "string \<Rightarrow> int" where
  "decimal ds = foldl (\<lambda>acc c. acc * 10 + digit_value c) 0 ds"

definition stoi :: "string \<Rightarrow> stoi_error + c_int" where
  "stoi str =
    (let s = dropWhile isspace str;
         negative = (take 1 s = ''-'');
         body = (if take 1 s = ''-'' \<or> take 1 s = ''+'' then drop 1 s else s);
         ds = takeWhile isdigit body
     in if ds = [] then Inl invalid_argument
        else let v = (if negative then - decimal ds else decimal ds)
             in if v < - (2 ^ 31) \<or> 2 ^ 31 - 1 < v then Inl out_of_range
                else Inr (word_of_int v))"

subsection \<open>Monitor: \<^verbatim>\<open>monitorServer\<close>\<close>

text \<open>
  The monitor's state: its local counter and the value it last stored in the shared
  flag \<^verbatim>\<open>serverConnection\<close>, which starts as \<^verbatim>\<open>true\<close>.
\<close>

record monitor =
  failureCount :: c_int
  serverConnection :: bool

definition intervalMs :: c_int where
  "intervalMs = 5000"

definition failureThreshold :: c_int where
  "failureThreshold = 3"

definition serverConnection_init :: bool where
  "serverConnection_init = True"

definition monitor_init :: monitor where
  "monitor_init = \<lparr>failureCount = 0, serverConnection = serverConnection_init\<rparr>"

text \<open>Lines 95 to 107: the counter and the flag after one probe result.\<close>

definition monitor_update :: "bool \<Rightarrow> monitor \<Rightarrow> monitor" where
  "monitor_update reachable m =
    (let count = (if reachable then 0 else failureCount m + 1)
     in if sint failureThreshold \<le> sint count
        then \<lparr>failureCount = count, serverConnection = False\<rparr>
        else \<lparr>failureCount = count, serverConnection = True\<rparr>)"

text \<open>One turn of the loop body, lines 93 to 115.\<close>

definition monitor_cycle :: "os \<Rightarrow> string \<Rightarrow> monitor \<Rightarrow> monitor \<times> event list" where
  "monitor_cycle w ip m =
    (let (reachable, es) = isHostReachable w ip isHostReachable_port isHostReachable_timeoutMs;
         m' = monitor_update reachable m
     in (m', es @
         [Store (serverConnection m'),
          Load,
          Cerr (''[DEBUG] Check IP: '' @ ip
                @ '' | Reachable: '' @ (if reachable then ''1'' else ''0'')
                @ '' | Failures: '' @ show_int (failureCount m')
                @ '' | Status: '' @ (if serverConnection m' then ''Online'' else ''Offline'')
                @ [CHR 0x0A]),
          Sleep intervalMs]))"

text \<open>
  The loop \<^verbatim>\<open>while (true)\<close>: the \<open>k\<close>-th turn meets the operating system \<open>world k\<close>.
  The function has no equation that returns a value, as the source has no \<^verbatim>\<open>break\<close>
  or \<^verbatim>\<open>return\<close>.
\<close>

partial_function (option) monitor_loop :: "(nat \<Rightarrow> os) \<Rightarrow> string \<Rightarrow> nat \<Rightarrow> monitor \<Rightarrow> unit option" where
  "monitor_loop world ip k m = monitor_loop world ip (Suc k) (fst (monitor_cycle (world k) ip m))"

definition monitorServer :: "(nat \<Rightarrow> os) \<Rightarrow> string \<Rightarrow> unit option" where
  "monitorServer world ip = monitor_loop world ip 0 monitor_init"

text \<open>The monitor's state once \<open>n\<close> turns of the loop are done.\<close>

primrec monitor_after :: "(nat \<Rightarrow> os) \<Rightarrow> string \<Rightarrow> nat \<Rightarrow> monitor" where
  "monitor_after world ip 0 = monitor_init"
| "monitor_after world ip (Suc n) = fst (monitor_cycle (world n) ip (monitor_after world ip n))"

text \<open>
  The loop with a bound on its turns, to run it: \<open>Inr (k, m)\<close> says the bound was used up
  before turn \<open>k\<close> in state \<open>m\<close> with the loop still going, \<open>Inl ()\<close> would say it had
  returned.
\<close>

fun monitor_fuel :: "nat \<Rightarrow> (nat \<Rightarrow> os) \<Rightarrow> string \<Rightarrow> nat \<Rightarrow> monitor \<Rightarrow> unit + nat \<times> monitor" where
  "monitor_fuel 0 world ip k m = Inr (k, m)"
| "monitor_fuel (Suc fuel) world ip k m =
     monitor_fuel fuel world ip (Suc k) (fst (monitor_cycle (world k) ip m))"

text \<open>The same on a given list of probe results: the states after each turn.\<close>

fun monitor_run :: "monitor \<Rightarrow> bool list \<Rightarrow> monitor list" where
  "monitor_run m [] = []"
| "monitor_run m (r # rs) = monitor_update r m # monitor_run (monitor_update r m) rs"

definition monitor_final :: "bool list \<Rightarrow> monitor" where
  "monitor_final rs = foldl (\<lambda>m r. monitor_update r m) monitor_init rs"

text \<open>The invariant of the monitor's state, and the run of failures a list of results ends with.\<close>

definition monitor_inv :: "monitor \<Rightarrow> bool" where
  "monitor_inv m = ((serverConnection m = False) = (sint failureThreshold \<le> sint (failureCount m)))"

definition trailing_failures :: "bool list \<Rightarrow> nat" where
  "trailing_failures rs = length (takeWhile Not (rev rs))"

subsection \<open>Command loop of \<^verbatim>\<open>main\<close>\<close>

datatype ctl = Break | Continue

text \<open>
  One turn of the loop of \<^verbatim>\<open>main\<close> on the line read, lines 185 to 205; \<open>sc\<close> is the
  value a read of \<^verbatim>\<open>serverConnection\<close> gives at that moment.
\<close>

definition main_iteration :: "os \<Rightarrow> string \<Rightarrow> bool \<Rightarrow> string \<Rightarrow> ctl \<times> event list" where
  "main_iteration w ip sc input =
    (if input = ''exit'' then (Break, [Cout ''> ''])
     else if input = ''status''
     then (Continue,
           [Cout ''> '', Load,
            Cout (''[Server status] '' @ (if sc then ''Online'' else ''Offline'') @ [CHR 0x0A])])
     else if take 5 input = ''test ''
     then (case stoi (drop 5 input) of
             Inl e \<Rightarrow> (Continue, [Cout ''> '', Cout (''[!] Invalid port number.'' @ [CHR 0x0A])])
           | Inr port \<Rightarrow>
               (let (ok, es) = testPortFast w ip port testPortFast_timeoutMs
                in (Continue,
                    Cout ''> '' # es @
                    [Cout (''[Port '' @ show_int port @ ''] ''
                           @ (if ok then ''Open'' else ''Closed'') @ [CHR 0x0A])])))
     else (Continue, [Cout ''> '', Cout (''[!] Unknown command.'' @ [CHR 0x0A])]))"

section \<open>Properties\<close>

subsection \<open>Connector and Prober\<close>

lemma testPortFast_is_isHostReachable: "testPortFast = isHostReachable"
  by (intro ext) (simp add: testPortFast_def isHostReachable_def)

lemma isHostReachable_result:
  "fst (isHostReachable w ip port timeoutMs)
     = (0 \<le> sint (socket_result w)
        \<and> 0 < sint (select_result w ip (htons port) (timeoutMs * 1000))
        \<and> so_error_result w ip (htons port) = 0)"
  by (auto simp add: isHostReachable_def Let_def)

lemma isHostReachable_ignores_connect:
  "isHostReachable (w\<lparr>connect_result := c\<rparr>) ip port timeoutMs
     = isHostReachable w ip port timeoutMs"
  by (simp add: isHostReachable_def Let_def)

lemma stores_isHostReachable: "stores (snd (isHostReachable w ip port timeoutMs)) = 0"
  by (simp add: stores_def isHostReachable_def Let_def)

lemma stores_testPortFast: "stores (snd (testPortFast w ip port timeoutMs)) = 0"
  by (simp add: testPortFast_is_isHostReachable stores_isHostReachable)

subsection \<open>Monitor\<close>

lemma monitor_cycle_state:
  "fst (monitor_cycle w ip m)
     = monitor_update (fst (isHostReachable w ip isHostReachable_port isHostReachable_timeoutMs)) m"
  by (simp add: monitor_cycle_def split_def Let_def)

lemma monitor_inv_init: "monitor_inv monitor_init"
  by (simp add: monitor_inv_def monitor_init_def serverConnection_init_def failureThreshold_def)

lemma monitor_inv_update: "monitor_inv (monitor_update r m)"
  by (simp add: monitor_inv_def monitor_update_def Let_def)

lemma monitor_final_snoc: "monitor_final (rs @ [r]) = monitor_update r (monitor_final rs)"
  by (simp add: monitor_final_def)

lemma monitor_inv_final: "monitor_inv (monitor_final rs)"
proof (cases rs rule: rev_cases)
  case Nil
  then show ?thesis
    using monitor_inv_init by (simp add: monitor_final_def)
next
  case (snoc ys y)
  then show ?thesis
    by (simp add: monitor_final_snoc monitor_inv_update)
qed

text \<open>Below the threshold the counter's increment does not wrap.\<close>

lemma sint_increment:
  fixes c :: c_int
  assumes lt: "sint c < 3"
  shows "sint (c + 1) = sint c + 1"
proof -
  have ge: "- (2 ^ 31) \<le> sint c"
    using sint_ge [of c] by simp
  have "sint (c + 1) = signed_take_bit 31 (sint c + 1)"
    by (simp add: sint_word_ariths)
  also have "\<dots> = sint c + 1"
    using lt ge by (intro signed_take_bit_int_eq_self) simp_all
  finally show ?thesis .
qed

lemma crosses_threshold:
  fixes c :: c_int
  shows "(sint c < 3 \<and> 3 \<le> sint (c + 1)) = (c + 1 = 3)"
proof
  assume a: "sint c < 3 \<and> 3 \<le> sint (c + 1)"
  then have "sint (c + 1) = sint c + 1"
    by (simp add: sint_increment)
  with a have "sint (c + 1) = sint (3 :: c_int)"
    by simp
  then show "c + 1 = 3"
    by (rule signed_word_eqI)
next
  assume "c + 1 = 3"
  then have "c = 2"
    by (simp add: add_eq_0_iff eq_diff_eq [symmetric])
  then show "sint c < 3 \<and> 3 \<le> sint (c + 1)"
    by simp
qed

lemma monitor_update_flips:
  assumes inv: "monitor_inv m"
  shows "(serverConnection m \<and> \<not> serverConnection (monitor_update r m))
           = (failureCount (monitor_update r m) = failureThreshold)"
proof (cases r)
  case True
  then show ?thesis
    by (simp add: monitor_update_def failureThreshold_def)
next
  case False
  have st: "serverConnection m = (sint (failureCount m) < 3)"
    using inv by (auto simp add: monitor_inv_def failureThreshold_def)
  have fc: "failureCount (monitor_update r m) = failureCount m + 1"
    using False by (simp add: monitor_update_def Let_def)
  have sc: "serverConnection (monitor_update r m) = (\<not> 3 \<le> sint (failureCount m + 1))"
    using False by (simp add: monitor_update_def Let_def failureThreshold_def)
  show ?thesis
    unfolding fc sc st failureThreshold_def
    using crosses_threshold [of "failureCount m"] by blast
qed

text \<open>The counter is the length of the run of failures the results end with, as a 32-bit value.\<close>

lemma failureCount_trailing_failures:
  "failureCount (monitor_final rs) = of_nat (trailing_failures rs)"
proof (induction rs rule: rev_induct)
  case Nil
  show ?case
    by (simp add: monitor_final_def monitor_init_def trailing_failures_def)
next
  case (snoc r rs)
  then show ?case
    by (simp add: monitor_final_snoc monitor_update_def Let_def trailing_failures_def)
qed

text \<open>
  So the status is decided by that run alone: it is false exactly when the run, as the
  32-bit counter holds it, is at or above the threshold; for a run of fewer than \<open>2 ^ 31\<close>
  failures, exactly when the run has three or more.
\<close>

lemma sint_of_nat_small:
  assumes "n < 2 ^ 31"
  shows "sint (of_nat n :: c_int) = int n"
proof -
  have "sint (of_nat n :: c_int) = sint (word_of_int (int n) :: c_int)"
    by simp
  also have "\<dots> = signed_take_bit 31 (int n)"
    by (simp only: sint_sbintrunc') simp
  also have "\<dots> = int n"
    using assms by (intro signed_take_bit_int_eq_self) simp_all
  finally show ?thesis .
qed

lemma status_by_counter:
  "serverConnection (monitor_final rs)
     = (\<not> 3 \<le> sint (of_nat (trailing_failures rs) :: c_int))"
  using monitor_inv_final [of rs]
  by (auto simp add: monitor_inv_def failureThreshold_def failureCount_trailing_failures)

lemma status_by_trailing_failures:
  "trailing_failures rs < 2 ^ 31 \<Longrightarrow>
     serverConnection (monitor_final rs) = (trailing_failures rs < 3)"
  by (auto simp add: status_by_counter sint_of_nat_small)

text \<open>The states of a run are the final states of the prefixes of the results.\<close>

lemma monitor_run_prefixes:
  "monitor_run m rs
     = map (\<lambda>n. foldl (\<lambda>m r. monitor_update r m) m (take (Suc n) rs)) [0..<length rs]"
proof (induction rs arbitrary: m)
  case Nil
  show ?case by simp
next
  case (Cons r rs)
  show ?case
    by (simp add: Cons.IH upt_conv_Cons map_Suc_upt [symmetric] del: upt_Suc)
qed

lemma monitor_loop_never_returns: "monitor_loop world ip k m = None"
proof (cases "monitor_loop world ip k m")
  case None
  then show ?thesis .
next
  case (Some y)
  have False
    by (rule monitor_loop.raw_induct [where P = "\<lambda>_ _ _ _ _. False", OF _ Some]) blast
  then show ?thesis ..
qed

lemma monitor_fuel_after:
  "monitor_fuel n world ip k (monitor_after world ip k)
     = Inr (k + n, monitor_after world ip (k + n))"
proof (induction n arbitrary: k)
  case 0
  show ?case by simp
next
  case (Suc n)
  have "monitor_fuel (Suc n) world ip k (monitor_after world ip k)
          = monitor_fuel n world ip (Suc k) (monitor_after world ip (Suc k))"
    by simp
  also have "\<dots> = Inr (Suc k + n, monitor_after world ip (Suc k + n))"
    by (rule Suc.IH)
  finally show ?case by simp
qed

subsection \<open>Command loop\<close>

lemma stoi_8080: "stoi ''8080'' = Inr 8080"
  by (simp add: stoi_def isspace_def isdigit_def decimal_def digit_value_def)

lemma show_int_8080: "show_int 8080 = ''8080''"
  by (simp add: show_int_def show_nat.simps)

text \<open>
  Whatever \<^verbatim>\<open>std::stoi\<close> throws on is answered with the invalid-port line, and nothing is
  asked of the network; \<^verbatim>\<open>test abc\<close> is such a line.
\<close>

lemma stoi_throws_rejected:
  "stoi s = Inl e \<Longrightarrow>
     main_iteration w ip sc (''test '' @ s)
       = (Continue, [Cout ''> '', Cout ''[!] Invalid port number.\<newline>''])"
  by (simp add: main_iteration_def)

lemma test_abc_rejected:
  "main_iteration w ip sc ''test abc''
     = (Continue, [Cout ''> '', Cout ''[!] Invalid port number.\<newline>''])"
  by (simp add: main_iteration_def stoi_def isspace_def isdigit_def)

section \<open>The claims\<close>

text \<open>
  C1: a port input that is not a number, or is an integer outside 1 to 65535, is to be
  answered with an invalid-input error, distinct from "port closed", before any network
  connection is attempted. The code does so for \<^verbatim>\<open>test abc\<close> (lemma
  \<open>test_abc_rejected\<close>) and does not for \<^verbatim>\<open>test 70000\<close>: \<^verbatim>\<open>std::stoi\<close> returns 70000,
  \<^verbatim>\<open>testPortFast\<close> is called, \<^verbatim>\<open>htons\<close> cuts the port to 70000 - 65536 = 4464, a socket is
  opened and connected there, and the answer is printed as that of port 70000. Here the
  operating system gives descriptor 3 and lets the wait time out.
\<close>

theorem test_70000_probes_port_4464:
  "main_iteration
     \<lparr>socket_result = 3, connect_result = (\<lambda>ip port. ConnectInProgress),
      select_result = (\<lambda>ip port usec. 0), so_error_result = (\<lambda>ip port. 0)\<rparr>
     ''127.0.0.1'' True ''test 70000''
   = (Continue,
      [Cout ''> '', Socket 3, Fcntl 3, Connect 3 ''127.0.0.1'' 4464, Select 3 200000, Close 3,
       Cout ''[Port 70000] Closed\<newline>''])"
  by (simp add: main_iteration_def stoi_def isspace_def isdigit_def decimal_def digit_value_def
      testPortFast_def testPortFast_timeoutMs_def htons_def show_int_def show_nat.simps)

text \<open>
  C2: on every sequence of probe results, the status goes from true to false in a turn
  exactly when that turn brings the failure counter to the threshold, and a successful
  probe leaves the status true whatever came before; the counter is the number of
  failures the results end with; the statuses published during a run are those of the
  prefixes of the results; and with threshold 3 the results fail, fail, fail, success
  publish true, true, false, true. Between the turn that reaches the threshold and the
  next success the status stays false: at every moment it is false exactly when the
  counter, the run of failures the results end with held in 32 bits, is at or above 3,
  which for a run of fewer than \<open>2 ^ 31\<close> failures is to say that the run has three or
  more; five failures publish true, true, false, false, false.
\<close>

theorem status_follows_consecutive_failures:
  "((serverConnection (monitor_final rs) \<and> \<not> serverConnection (monitor_final (rs @ [r])))
      = (failureCount (monitor_final (rs @ [r])) = failureThreshold))
   \<and> serverConnection (monitor_final (rs @ [True]))
   \<and> failureCount (monitor_final rs) = of_nat (trailing_failures rs)
   \<and> map serverConnection (monitor_run monitor_init rs)
       = map (\<lambda>n. serverConnection (monitor_final (take (Suc n) rs))) [0..<length rs]
   \<and> failureThreshold = 3
   \<and> map serverConnection (monitor_run monitor_init [False, False, False, True])
       = [True, True, False, True]
   \<and> serverConnection (monitor_final rs)
       = (\<not> 3 \<le> sint (of_nat (trailing_failures rs) :: c_int))
   \<and> (trailing_failures rs < 2 ^ 31 \<longrightarrow>
        serverConnection (monitor_final rs) = (trailing_failures rs < 3))
   \<and> map serverConnection (monitor_run monitor_init [False, False, False, False, False])
       = [True, True, False, False, False]"
proof (intro conjI)
  show "(serverConnection (monitor_final rs) \<and> \<not> serverConnection (monitor_final (rs @ [r])))
          = (failureCount (monitor_final (rs @ [r])) = failureThreshold)"
    unfolding monitor_final_snoc by (rule monitor_update_flips [OF monitor_inv_final])
  show "serverConnection (monitor_final (rs @ [True]))"
    by (simp add: monitor_final_snoc monitor_update_def failureThreshold_def)
  show "failureCount (monitor_final rs) = of_nat (trailing_failures rs)"
    by (rule failureCount_trailing_failures)
  show "map serverConnection (monitor_run monitor_init rs)
          = map (\<lambda>n. serverConnection (monitor_final (take (Suc n) rs))) [0..<length rs]"
    by (simp add: monitor_run_prefixes monitor_final_def del: upt_Suc)
  show "failureThreshold = 3"
    by (simp add: failureThreshold_def)
  show "map serverConnection (monitor_run monitor_init [False, False, False, True])
          = [True, True, False, True]"
    by (simp add: monitor_update_def monitor_init_def failureThreshold_def)
  show "serverConnection (monitor_final rs)
          = (\<not> 3 \<le> sint (of_nat (trailing_failures rs) :: c_int))"
    by (rule status_by_counter)
  show "trailing_failures rs < 2 ^ 31 \<longrightarrow>
          serverConnection (monitor_final rs) = (trailing_failures rs < 3)"
    by (simp add: status_by_trailing_failures)
  show "map serverConnection (monitor_run monitor_init [False, False, False, False, False])
          = [True, True, False, False, False]"
    by (simp add: monitor_update_def monitor_init_def failureThreshold_def)
qed

text \<open>
  The theorem at four failures in a row: the run is short of \<open>2 ^ 31\<close>, and the status
  is false.
\<close>

theorem status_follows_consecutive_failures_witness:
  "trailing_failures [False, False, False, False] < 2 ^ 31
   \<and> \<not> serverConnection (monitor_final [False, False, False, False])"
  using status_follows_consecutive_failures [of "[False, False, False, False]" False]
  by (simp add: trailing_failures_def)

text \<open>
  C3: the status is false if and only if the failure counter is at or above the
  threshold: in the initial state, after a turn of the loop from any state under any
  answer of the operating system, and so after any number of turns; and the one value a
  turn stores in the shared flag is the status of the state it leaves.
\<close>

theorem monitor_invariant:
  "monitor_inv monitor_init
   \<and> monitor_inv (fst (monitor_cycle w ip m))
   \<and> monitor_inv (monitor_after world ip n)
   \<and> filter is_store (snd (monitor_cycle w ip m))
       = [Store (serverConnection (fst (monitor_cycle w ip m)))]"
proof (intro conjI)
  show "monitor_inv monitor_init"
    by (rule monitor_inv_init)
  show "monitor_inv (fst (monitor_cycle w ip m))"
    by (simp add: monitor_cycle_state monitor_inv_update)
  show "monitor_inv (monitor_after world ip n)"
    by (cases n) (simp_all add: monitor_inv_init monitor_cycle_state monitor_inv_update)
  show "filter is_store (snd (monitor_cycle w ip m))
          = [Store (serverConnection (fst (monitor_cycle w ip m)))]"
    using stores_isHostReachable [of w ip isHostReachable_port isHostReachable_timeoutMs]
    by (simp add: monitor_cycle_def split_def Let_def stores_def)
qed

text \<open>
  C4: \<^verbatim>\<open>isHostReachable\<close> is to return true only if a connection completes within the
  timeout and the socket reports no pending error. The code returns false when the
  socket cannot be created, when the wait times out or fails, and when the socket is
  ready with an error (lemma \<open>isHostReachable_result\<close>), but it never looks at what
  \<^verbatim>\<open>connect\<close> returned. Here \<^verbatim>\<open>connect\<close> fails at once with \<^verbatim>\<open>ENETUNREACH\<close> (101) for a host
  to which there is no route; the socket, never connected, is reported writable and has
  no pending error, and the function returns true.
\<close>

theorem isHostReachable_true_after_failed_connect:
  "isHostReachable
     \<lparr>socket_result = 3, connect_result = (\<lambda>ip port. ConnectFailed 101),
      select_result = (\<lambda>ip port usec. 1), so_error_result = (\<lambda>ip port. 0)\<rparr>
     ''10.255.255.1'' 80 500
   = (True,
      [Socket 3, Fcntl 3, Connect 3 ''10.255.255.1'' 80, Select 3 500000, GetSockOpt 3,
       Close 3])"
  by (simp add: isHostReachable_def htons_def)

text \<open>
  C5: \<^verbatim>\<open>testPortFast\<close> and \<^verbatim>\<open>isHostReachable\<close> give the same result, through the same
  system calls, on every operating system, host, port and timeout: they are the same
  function. The timeouts they take by default differ.
\<close>

theorem testPortFast_equals_isHostReachable:
  "testPortFast w ip port timeoutMs = isHostReachable w ip port timeoutMs
   \<and> testPortFast = isHostReachable
   \<and> testPortFast_timeoutMs \<noteq> isHostReachable_timeoutMs"
  by (simp add: testPortFast_is_isHostReachable testPortFast_timeoutMs_def
      isHostReachable_timeoutMs_def)

text \<open>
  C6: the monitor's loop never returns, whatever the operating system answers in each
  turn; given any bound \<open>n\<close> it does \<open>n\<close> turns and is still running; and a failed probe
  does nothing but count and set the status.
\<close>

theorem monitor_never_stops:
  "monitorServer world ip = None
   \<and> monitor_fuel n world ip 0 monitor_init = Inr (n, monitor_after world ip n)
   \<and> monitor_update False m
       = \<lparr>failureCount = failureCount m + 1,
          serverConnection = (\<not> sint failureThreshold \<le> sint (failureCount m + 1))\<rparr>"
  using monitor_fuel_after [of n world ip 0]
  by (simp add: monitorServer_def monitor_loop_never_returns monitor_update_def Let_def)

text \<open>
  C7: when \<^verbatim>\<open>isHostReachable\<close> returns, no descriptor it created is open: a socket that
  was created is closed once, and the close is the last thing the function does; when
  no socket was created, the failed call is all it did.
\<close>

theorem isHostReachable_closes_socket:
  "held (snd (isHostReachable w ip port timeoutMs)) [] = []
   \<and> length (filter (\<lambda>e. e = Close (socket_result w)) (snd (isHostReachable w ip port timeoutMs)))
       = (if sint (socket_result w) < 0 then 0 else 1)
   \<and> last (snd (isHostReachable w ip port timeoutMs))
       = (if sint (socket_result w) < 0 then Socket (socket_result w) else Close (socket_result w))"
  by (simp add: isHostReachable_def Let_def)

text \<open>
  C8: the timeout \<^verbatim>\<open>testPortFast\<close> takes by default is 200 milliseconds, that of
  \<^verbatim>\<open>isHostReachable\<close> is 500, and 200 is the smaller; the monitor's turn probes port 80
  with the 500, and the \<^verbatim>\<open>test\<close> command probes with the 200.
\<close>

theorem prober_timeout_below_monitor_timeout:
  "testPortFast_timeoutMs = 200
   \<and> isHostReachable_timeoutMs = 500
   \<and> sint testPortFast_timeoutMs < sint isHostReachable_timeoutMs
   \<and> fst (monitor_cycle w ip m) = monitor_update (fst (isHostReachable w ip 80 500)) m
   \<and> take (length (snd (isHostReachable w ip 80 500))) (snd (monitor_cycle w ip m))
       = snd (isHostReachable w ip 80 500)
   \<and> main_iteration w ip sc ''test 8080''
       = (Continue,
          Cout ''> '' # snd (testPortFast w ip 8080 200)
          @ [Cout (''[Port 8080] ''
                   @ (if fst (testPortFast w ip 8080 200) then ''Open'' else ''Closed'')
                   @ ''\<newline>'')])"
proof (intro conjI)
  show "testPortFast_timeoutMs = 200"
    by (simp add: testPortFast_timeoutMs_def)
  show "isHostReachable_timeoutMs = 500"
    by (simp add: isHostReachable_timeoutMs_def)
  show "sint testPortFast_timeoutMs < sint isHostReachable_timeoutMs"
    by (simp add: testPortFast_timeoutMs_def isHostReachable_timeoutMs_def)
  show "fst (monitor_cycle w ip m) = monitor_update (fst (isHostReachable w ip 80 500)) m"
    by (simp add: monitor_cycle_state isHostReachable_port_def isHostReachable_timeoutMs_def)
  show "take (length (snd (isHostReachable w ip 80 500))) (snd (monitor_cycle w ip m))
          = snd (isHostReachable w ip 80 500)"
    by (simp add: monitor_cycle_def split_def Let_def isHostReachable_port_def
        isHostReachable_timeoutMs_def)
  show "main_iteration w ip sc ''test 8080''
          = (Continue,
             Cout ''> '' # snd (testPortFast w ip 8080 200)
             @ [Cout (''[Port 8080] ''
                      @ (if fst (testPortFast w ip 8080 200) then ''Open'' else ''Closed'')
                      @ ''\<newline>'')])"
    by (simp add: main_iteration_def stoi_8080 show_int_8080 split_def Let_def
        testPortFast_timeoutMs_def)
qed

text \<open>
  C9: a turn of the monitor's loop stores to the shared flag exactly once; a turn of the
  command loop, on any line, stores to it never, and neither \<^verbatim>\<open>testPortFast\<close> nor
  \<^verbatim>\<open>isHostReachable\<close> does; the \<^verbatim>\<open>status\<close> command reads it.
\<close>

theorem only_monitor_stores:
  "stores (snd (monitor_cycle w ip m)) = 1
   \<and> stores (snd (main_iteration w ip sc input)) = 0
   \<and> stores (snd (testPortFast w ip port timeoutMs)) = 0
   \<and> stores (snd (isHostReachable w ip port timeoutMs)) = 0
   \<and> Load \<in> set (snd (main_iteration w ip sc ''status''))"
proof (intro conjI)
  show "stores (snd (monitor_cycle w ip m)) = 1"
    using stores_isHostReachable [of w ip isHostReachable_port isHostReachable_timeoutMs]
    by (simp add: monitor_cycle_def split_def Let_def stores_def)
  show "stores (snd (main_iteration w ip sc input)) = 0"
    using stores_testPortFast
    by (simp add: main_iteration_def split_def Let_def stores_def split: sum.split)
  show "stores (snd (testPortFast w ip port timeoutMs)) = 0"
    by (rule stores_testPortFast)
  show "stores (snd (isHostReachable w ip port timeoutMs)) = 0"
    by (rule stores_isHostReachable)
  show "Load \<in> set (snd (main_iteration w ip sc ''status''))"
    by (simp add: main_iteration_def)
qed

text \<open>
  C10: the shared flag starts as true, the monitor's state before its first turn has it
  true, and the \<^verbatim>\<open>status\<close> command answered from that value prints "Online", whatever
  the operating system would answer to a probe.
\<close>

theorem status_online_before_first_poll:
  "serverConnection_init = True
   \<and> serverConnection (monitor_after world ip 0) = True
   \<and> main_iteration w ip serverConnection_init ''status''
       = (Continue, [Cout ''> '', Load, Cout ''[Server status] Online\<newline>''])"
  by (simp add: serverConnection_init_def monitor_init_def main_iteration_def)

end
